theory Spec2Isabelle
  imports Complex_Main "HOL-Library.Product_Lexorder"
begin

section \<open>Python values used by the program\<close>

text \<open>
  The program never computes with its floating-point numbers: it parses them, stores them
  and compares them. A Python float is therefore modelled by the number it denotes, plus the
  two infinities and not-a-number. Comparisons follow IEEE 754 as Python exposes it: every
  comparison with not-a-number is false, also \<open>nan == nan\<close>.
\<close>

datatype pyfloat = NaN | NegInf | Fin real | PosInf

fun isnan :: "pyfloat \<Rightarrow> bool" where
  "isnan NaN = True"
| "isnan _ = False"

fun float_le :: "pyfloat \<Rightarrow> pyfloat \<Rightarrow> bool" where
  "float_le NaN _ = False"
| "float_le _ NaN = False"
| "float_le NegInf _ = True"
| "float_le _ PosInf = True"
| "float_le (Fin x) (Fin y) = (x \<le> y)"
| "float_le _ _ = False"

definition float_eq :: "pyfloat \<Rightarrow> pyfloat \<Rightarrow> bool" where
  "float_eq a b = (\<not> isnan a \<and> \<not> isnan b \<and> a = b)"

definition float_ge :: "pyfloat \<Rightarrow> pyfloat \<Rightarrow> bool" where
  "float_ge a b = float_le b a"

definition float_gt :: "pyfloat \<Rightarrow> pyfloat \<Rightarrow> bool" where
  "float_gt a b = (float_le b a \<and> \<not> float_eq a b)"

text \<open>The exceptions the modelled code can raise. An assertion error carries its message,
  a key error the key that was not found.\<close>

datatype error =
    AssertionError string
  | TypeError
  | ValueError
  | KeyError string
  | AttributeError
  | UnsupportedCriterionError

text \<open>
  The argument of the builtin \<open>float(...)\<close>, classified by what the builtin does with it:
  \<open>None\<close> (a type error), a float or a numeric string together with the value it denotes
  (\<open>float('nan')\<close> is \<open>ArgNum NaN\<close>), or a string that \<open>float\<close> rejects with a value error
  (such as the empty string).
\<close>

datatype float_arg = ArgNone | ArgNum pyfloat | ArgUnparsable

fun py_float :: "float_arg \<Rightarrow> error + pyfloat" where
  "py_float ArgNone = Inl TypeError"
| "py_float (ArgNum x) = Inr x"
| "py_float ArgUnparsable = Inl ValueError"

text \<open>The program's callers hand over flags as booleans and criteria bounds as floats
  (the loader computes a boolean, the command line parses floats); on such values the
  builtins \<open>bool(...)\<close> and \<open>float(...)\<close> return their argument.\<close>

definition bool_of :: "bool \<Rightarrow> bool" where
  "bool_of b = b"

definition float_of :: "pyfloat \<Rightarrow> pyfloat" where
  "float_of x = x"

text \<open>\<open>str.lower()\<close> on ASCII text, which is what designations and names of the data set
  are: the letters A to Z are mapped to a to z, every other character is kept.\<close>

definition lower_char :: "char \<Rightarrow> char" where
  "lower_char c =
     (case map_of (zip ''ABCDEFGHIJKLMNOPQRSTUVWXYZ'' ''abcdefghijklmnopqrstuvwxyz'') c of
        None \<Rightarrow> c
      | Some l \<Rightarrow> l)"

definition lower :: "string \<Rightarrow> string" where
  "lower s = map lower_char s"

text \<open>A \<open>datetime\<close> at minute precision; \<open>datetime.date()\<close> keeps year, month and day.
  Dates are compared lexicographically, as Python compares them.\<close>

record datetime =
  year :: int
  month :: int
  day :: int
  hour :: int
  minute :: int

type_synonym date = "int \<times> int \<times> int"

definition date_of :: "datetime \<Rightarrow> date" where
  "date_of t = (year t, month t, day t)"

section \<open>models.py: the entities\<close>

text \<open>
  Objects live in a store and are referred to by their identity: a \<open>NearEarthObject\<close> holds
  the references of its close approaches, a \<open>CloseApproach\<close> the reference of its NEO
  (\<open>None\<close> until the database links it).
\<close>

type_synonym neo_ref = nat
type_synonym ca_ref = nat

record NearEarthObject =
  designation :: string
  name :: "string option"
  diameter :: pyfloat
  hazardous :: bool
  approaches :: "ca_ref list"

record CloseApproach =
  ca_designation :: string
  time :: datetime
  distance :: pyfloat
  velocity :: pyfloat
  neo :: "neo_ref option"

record heap =
  neo_objs :: "neo_ref \<Rightarrow> NearEarthObject"
  ca_objs :: "ca_ref \<Rightarrow> CloseApproach"

text \<open>The message of the assertion on the designation:
  \<open>f"Attribute designation is required. Value: '{designation}' is not allowed"\<close>.\<close>

definition designation_message :: "string option \<Rightarrow> string" where
  "designation_message d =
     ''Attribute designation is required. Value: '' @ [CHR 0x27]
       @ (case d of None \<Rightarrow> ''None'' | Some s \<Rightarrow> s) @ [CHR 0x27] @ '' is not allowed''"

text \<open>The assertion both constructors make right after storing the designation:
  \<open>assert designation is not None and designation != ''\<close>. It raises an assertion error
  with the message above, or lets the designation through.\<close>

definition assert_designation :: "string option \<Rightarrow> error + string" where
  "assert_designation designation' =
     (case designation' of
        None \<Rightarrow> Inl (AssertionError (designation_message designation'))
      | Some des \<Rightarrow>
          if des = [] then Inl (AssertionError (designation_message designation'))
          else Inr des)"

text \<open>\<open>NearEarthObject.__init__(designation, name, diameter, hazardous)\<close>. The statements
  run in the order of the source: the assertion on the designation, the name, the
  conversion of the diameter (which raises what \<open>float\<close> raises), the assertion on the
  diameter (without a message), the hazardous flag, the empty list of approaches.\<close>

definition NearEarthObject_init ::
  "string option \<Rightarrow> string option \<Rightarrow> float_arg \<Rightarrow> bool \<Rightarrow> error + NearEarthObject" where
  "NearEarthObject_init designation' name' diameter' hazardous' =
     (case assert_designation designation' of
        Inl e \<Rightarrow> Inl e
      | Inr des \<Rightarrow>
            (case py_float diameter' of
               Inl e \<Rightarrow> Inl e
             | Inr d \<Rightarrow>
                 let dia = (if isnan d then NaN else d) in
                 if float_gt dia (Fin 0) \<or> isnan d
                 then Inr \<lparr>designation = des,
                           name = (if name' = None then None else name'),
                           diameter = dia,
                           hazardous = (if \<not> hazardous' then False else bool_of hazardous'),
                           approaches = []\<rparr>
                 else Inl (AssertionError [])))"

text \<open>\<open>CloseApproach.__init__(designation, time, distance, velocity)\<close>. The helper
  \<open>cd_to_datetime\<close> is defined in \<open>helpers.py\<close>, outside the sources at hand, and is a
  parameter of the model: it maps the time literal to a datetime or raises.\<close>

definition CloseApproach_init ::
  "(string \<Rightarrow> error + datetime) \<Rightarrow> string option \<Rightarrow> string \<Rightarrow> float_arg \<Rightarrow> float_arg
     \<Rightarrow> error + CloseApproach" where
  "CloseApproach_init cd_to_datetime designation' time' distance' velocity' =
     (case assert_designation designation' of
        Inl e \<Rightarrow> Inl e
      | Inr des \<Rightarrow>
            (case cd_to_datetime time' of
               Inl e \<Rightarrow> Inl e
             | Inr t \<Rightarrow>
                 (case py_float distance' of
                    Inl e \<Rightarrow> Inl e
                  | Inr dst \<Rightarrow>
                      (case py_float velocity' of
                         Inl e \<Rightarrow> Inl e
                       | Inr vel \<Rightarrow>
                           Inr \<lparr>ca_designation = des, time = t, distance = dst,
                                 velocity = vel, neo = None\<rparr>))))"

section \<open>database.py: linking and querying\<close>

record NEODatabase =
  db_neos :: "neo_ref list"
  db_approaches :: "ca_ref list"
  designation_to_neo :: "string \<rightharpoonup> neo_ref"
  name_to_neo :: "string \<rightharpoonup> neo_ref"

text \<open>The first loop of \<open>NEODatabase.__init__\<close>: every NEO is stored under its lowercased
  designation and, when it has a name, under its lowercased name. A later NEO overwrites
  an earlier one with the same key.\<close>

fun index_neos ::
  "heap \<Rightarrow> neo_ref list \<Rightarrow> (string \<rightharpoonup> neo_ref) \<times> (string \<rightharpoonup> neo_ref)
     \<Rightarrow> (string \<rightharpoonup> neo_ref) \<times> (string \<rightharpoonup> neo_ref)" where
  "index_neos h [] (d2n, n2n) = (d2n, n2n)"
| "index_neos h (r # rs) (d2n, n2n) =
     (let obj = neo_objs h r;
          d2n' = d2n(lower (designation obj) \<mapsto> r);
          n2n' = (case name obj of None \<Rightarrow> n2n | Some nm \<Rightarrow> n2n(lower nm \<mapsto> r))
      in index_neos h rs (d2n', n2n'))"

text \<open>The second loop: the subscript \<open>self._designation_to_neo[...]\<close> raises a key error
  for a missing key; otherwise the approach gets its NEO and is appended to the NEO's
  approaches. Both writes go to the store.\<close>

fun link_approaches :: "(string \<rightharpoonup> neo_ref) \<Rightarrow> ca_ref list \<Rightarrow> heap \<Rightarrow> error + heap" where
  "link_approaches d2n [] h = Inr h"
| "link_approaches d2n (a # as) h =
     (let key = lower (ca_designation (ca_objs h a)) in
      case d2n key of
        None \<Rightarrow> Inl (KeyError key)
      | Some r \<Rightarrow>
          let h1 = h\<lparr>ca_objs := (ca_objs h)(a := (ca_objs h a)\<lparr>neo := Some r\<rparr>)\<rparr>;
              h2 = h1\<lparr>neo_objs := (neo_objs h1)
                      (r := (neo_objs h1 r)\<lparr>approaches := approaches (neo_objs h1 r) @ [a]\<rparr>)\<rparr>
          in link_approaches d2n as h2)"

definition NEODatabase_init ::
  "heap \<Rightarrow> neo_ref list \<Rightarrow> ca_ref list \<Rightarrow> error + (heap \<times> NEODatabase)" where
  "NEODatabase_init h neos' approaches' =
     (case index_neos h neos' (Map.empty, Map.empty) of
        (d2n, n2n) \<Rightarrow>
          (case link_approaches d2n approaches' h of
             Inl e \<Rightarrow> Inl e
           | Inr h' \<Rightarrow>
               Inr (h', \<lparr>db_neos = neos', db_approaches = approaches',
                         designation_to_neo = d2n, name_to_neo = n2n\<rparr>)))"

definition get_neo_by_designation :: "NEODatabase \<Rightarrow> string \<Rightarrow> neo_ref option" where
  "get_neo_by_designation db designation' =
     (let designation' = lower designation';
          neo' = designation_to_neo db designation'
      in if neo' = None then None else neo')"

definition get_neo_by_name :: "NEODatabase \<Rightarrow> string \<Rightarrow> neo_ref option" where
  "get_neo_by_name db name' =
     (let name' = lower name';
          neo' = name_to_neo db name'
      in if neo' = None then None else neo')"

section \<open>filters.py: predicates, their factory and the limiter\<close>

text \<open>The comparators of the \<open>operator\<close> module that the program uses.\<close>

datatype operator = Eq | Ge | Le

definition apply_op :: "operator \<Rightarrow> 'a::ord \<Rightarrow> 'a \<Rightarrow> bool" where
  "apply_op op' x y = (case op' of Eq \<Rightarrow> x = y | Ge \<Rightarrow> x \<ge> y | Le \<Rightarrow> x \<le> y)"

definition float_op :: "operator \<Rightarrow> pyfloat \<Rightarrow> pyfloat \<Rightarrow> bool" where
  "float_op op' x y = (case op' of Eq \<Rightarrow> float_eq x y | Ge \<Rightarrow> float_ge x y | Le \<Rightarrow> float_le x y)"

text \<open>A reference value of any of the kinds the program compares. Python compares a
  boolean with a float as the number 0 or 1; a date is equal to nothing but a date and is
  not ordered against anything else.\<close>

datatype refvalue = RDate date | RFloat pyfloat | RBool bool

fun refvalue_op :: "operator \<Rightarrow> refvalue \<Rightarrow> refvalue \<Rightarrow> error + bool" where
  "refvalue_op op' (RDate x) (RDate y) = Inr (apply_op op' x y)"
| "refvalue_op op' (RFloat x) (RFloat y) = Inr (float_op op' x y)"
| "refvalue_op op' (RBool x) (RBool y) = Inr (apply_op op' x y)"
| "refvalue_op op' (RBool x) (RFloat y) = Inr (float_op op' (Fin (if x then 1 else 0)) y)"
| "refvalue_op op' (RFloat x) (RBool y) = Inr (float_op op' x (Fin (if y then 1 else 0)))"
| "refvalue_op op' _ _ = (if op' = Eq then Inr False else Inl TypeError)"

text \<open>
  The class \<open>AttributeFilter\<close> and its five subclasses. An instance holds the comparator
  and the reference value; the subclass decides which attribute \<open>get\<close> fetches. The
  reference value of a subclass instance has the type of that attribute.
\<close>

datatype AttributeFilter =
    AttributeFilter operator refvalue
  | DateFilter operator date
  | DistanceFilter operator pyfloat
  | VelocityFilter operator pyfloat
  | DiameterFilter operator pyfloat
  | HazardousFilter operator bool

text \<open>The \<open>get\<close> class methods. The one of the base class raises; those that go through
  \<open>approach.neo\<close> raise an attribute error when the reference is still \<open>None\<close>.\<close>

definition AttributeFilter_get :: "heap \<Rightarrow> ca_ref \<Rightarrow> error + 'a" where
  "AttributeFilter_get h approach = Inl UnsupportedCriterionError"

definition DateFilter_get :: "heap \<Rightarrow> ca_ref \<Rightarrow> error + date" where
  "DateFilter_get h approach = Inr (date_of (time (ca_objs h approach)))"

definition DistanceFilter_get :: "heap \<Rightarrow> ca_ref \<Rightarrow> error + pyfloat" where
  "DistanceFilter_get h approach = Inr (distance (ca_objs h approach))"

definition VelocityFilter_get :: "heap \<Rightarrow> ca_ref \<Rightarrow> error + pyfloat" where
  "VelocityFilter_get h approach = Inr (velocity (ca_objs h approach))"

definition DiameterFilter_get :: "heap \<Rightarrow> ca_ref \<Rightarrow> error + pyfloat" where
  "DiameterFilter_get h approach =
     (case neo (ca_objs h approach) of
        None \<Rightarrow> Inl AttributeError
      | Some r \<Rightarrow> Inr (diameter (neo_objs h r)))"

definition HazardousFilter_get :: "heap \<Rightarrow> ca_ref \<Rightarrow> error + bool" where
  "HazardousFilter_get h approach =
     (case neo (ca_objs h approach) of
        None \<Rightarrow> Inl AttributeError
      | Some r \<Rightarrow> Inr (hazardous (neo_objs h r)))"

text \<open>\<open>__call__\<close>: \<open>self.op(self.get(approach), self.value)\<close>.\<close>

fun call :: "heap \<Rightarrow> AttributeFilter \<Rightarrow> ca_ref \<Rightarrow> error + bool" where
  "call h (AttributeFilter op' v) approach =
     (case AttributeFilter_get h approach of Inl e \<Rightarrow> Inl e | Inr x \<Rightarrow> refvalue_op op' x v)"
| "call h (DateFilter op' v) approach =
     (case DateFilter_get h approach of Inl e \<Rightarrow> Inl e | Inr x \<Rightarrow> Inr (apply_op op' x v))"
| "call h (DistanceFilter op' v) approach =
     (case DistanceFilter_get h approach of Inl e \<Rightarrow> Inl e | Inr x \<Rightarrow> Inr (float_op op' x v))"
| "call h (VelocityFilter op' v) approach =
     (case VelocityFilter_get h approach of Inl e \<Rightarrow> Inl e | Inr x \<Rightarrow> Inr (float_op op' x v))"
| "call h (DiameterFilter op' v) approach =
     (case DiameterFilter_get h approach of Inl e \<Rightarrow> Inl e | Inr x \<Rightarrow> Inr (float_op op' x v))"
| "call h (HazardousFilter op' v) approach =
     (case HazardousFilter_get h approach of Inl e \<Rightarrow> Inl e | Inr x \<Rightarrow> Inr (apply_op op' x v))"

text \<open>
  A lazy sequence, as a generator produces it: it ends, yields a value and goes on, or
  raises. \<open>iter\<close> is the iterator over a list, \<open>yielded\<close> the values a consumer receives
  before the sequence ends or raises.
\<close>

datatype 'a iterator = StopIteration | Yield 'a "'a iterator" | Raise error

fun iter :: "'a list \<Rightarrow> 'a iterator" where
  "iter [] = StopIteration"
| "iter (x # xs) = Yield x (iter xs)"

fun yielded :: "'a iterator \<Rightarrow> 'a list" where
  "yielded StopIteration = []"
| "yielded (Yield x it) = x # yielded it"
| "yielded (Raise e) = []"

text \<open>The inner loop of \<open>query\<close>: the flag \<open>semaphor\<close> starts true and the loop breaks at
  the first filter that does not hold; a filter that raises ends the loop with its
  exception.\<close>

fun passes :: "heap \<Rightarrow> AttributeFilter list \<Rightarrow> ca_ref \<Rightarrow> error + bool" where
  "passes h [] approach = Inr True"
| "passes h (a_filter # filters) approach =
     (case call h a_filter approach of
        Inl e \<Rightarrow> Inl e
      | Inr ok \<Rightarrow> if \<not> ok then Inr False else passes h filters approach)"

fun query_from :: "heap \<Rightarrow> AttributeFilter list \<Rightarrow> ca_ref list \<Rightarrow> ca_ref iterator" where
  "query_from h filters [] = StopIteration"
| "query_from h filters (approach # rest) =
     (case passes h filters approach of
        Inl e \<Rightarrow> Raise e
      | Inr semaphor \<Rightarrow>
          if semaphor then Yield approach (query_from h filters rest)
          else query_from h filters rest)"

definition query :: "heap \<Rightarrow> NEODatabase \<Rightarrow> AttributeFilter list \<Rightarrow> ca_ref iterator" where
  "query h db filters = query_from h filters (db_approaches db)"

text \<open>\<open>create_filters\<close>: the list starts empty and each criterion that is not \<open>None\<close>
  appends its filter, in the order of the source.\<close>

definition create_filters ::
  "date option \<Rightarrow> date option \<Rightarrow> date option \<Rightarrow> pyfloat option \<Rightarrow> pyfloat option
     \<Rightarrow> pyfloat option \<Rightarrow> pyfloat option \<Rightarrow> pyfloat option \<Rightarrow> pyfloat option
     \<Rightarrow> bool option \<Rightarrow> AttributeFilter list" where
  "create_filters date' start_date end_date distance_min distance_max
       velocity_min velocity_max diameter_min diameter_max hazardous' =
     (let filters = [];
          filters = (case date' of None \<Rightarrow> filters
                     | Some v \<Rightarrow> filters @ [DateFilter Eq v]);
          filters = (case start_date of None \<Rightarrow> filters
                     | Some v \<Rightarrow> filters @ [DateFilter Ge v]);
          filters = (case end_date of None \<Rightarrow> filters
                     | Some v \<Rightarrow> filters @ [DateFilter Le v]);
          filters = (case distance_min of None \<Rightarrow> filters
                     | Some v \<Rightarrow> filters @ [DistanceFilter Ge (float_of v)]);
          filters = (case distance_max of None \<Rightarrow> filters
                     | Some v \<Rightarrow> filters @ [DistanceFilter Le (float_of v)]);
          filters = (case velocity_min of None \<Rightarrow> filters
                     | Some v \<Rightarrow> filters @ [VelocityFilter Ge (float_of v)]);
          filters = (case velocity_max of None \<Rightarrow> filters
                     | Some v \<Rightarrow> filters @ [VelocityFilter Le (float_of v)]);
          filters = (case diameter_min of None \<Rightarrow> filters
                     | Some v \<Rightarrow> filters @ [DiameterFilter Ge (float_of v)]);
          filters = (case diameter_max of None \<Rightarrow> filters
                     | Some v \<Rightarrow> filters @ [DiameterFilter Le (float_of v)]);
          filters = (case hazardous' of None \<Rightarrow> filters
                     | Some v \<Rightarrow> filters @ [HazardousFilter Eq (bool_of v)])
      in filters)"

text \<open>\<open>itertools.islice(iterator, n)\<close> with a stop count: the count must lie between 0
  and \<open>sys.maxsize\<close>, the largest index of the interpreter, and any other count is
  rejected with a value error; otherwise at most \<open>n\<close> values are passed on and the
  underlying iterator is not advanced beyond them. \<open>sys.maxsize\<close> depends on the build of
  the interpreter and is a parameter of the model.\<close>

fun take_iter :: "nat \<Rightarrow> 'a iterator \<Rightarrow> 'a iterator" where
  "take_iter 0 it = StopIteration"
| "take_iter (Suc n) StopIteration = StopIteration"
| "take_iter (Suc n) (Yield x it) = Yield x (take_iter n it)"
| "take_iter (Suc n) (Raise e) = Raise e"

definition islice :: "int \<Rightarrow> 'a iterator \<Rightarrow> int \<Rightarrow> error + 'a iterator" where
  "islice maxsize it n =
     (if n < 0 \<or> maxsize < n then Inl ValueError else Inr (take_iter (nat n) it))"

definition limit :: "int \<Rightarrow> 'a iterator \<Rightarrow> int option \<Rightarrow> error + 'a iterator" where
  "limit maxsize it n =
     (case n of
        None \<Rightarrow> Inr it
      | Some k \<Rightarrow> if k = 0 then Inr it else islice maxsize it k)"

section \<open>Notions used in the statements\<close>

text \<open>The key under which an object is indexed or looked up: its lowercased designation.\<close>

definition neo_key :: "heap \<Rightarrow> neo_ref \<Rightarrow> string" where
  "neo_key h r = lower (designation (neo_objs h r))"

definition ca_key :: "heap \<Rightarrow> ca_ref \<Rightarrow> string" where
  "ca_key h a = lower (ca_designation (ca_objs h a))"

text \<open>The two indices the first loop of the constructor builds from empty dictionaries.\<close>

definition designation_index :: "heap \<Rightarrow> neo_ref list \<Rightarrow> string \<rightharpoonup> neo_ref" where
  "designation_index h rs = fst (index_neos h rs (Map.empty, Map.empty))"

definition name_index :: "heap \<Rightarrow> neo_ref list \<Rightarrow> string \<rightharpoonup> neo_ref" where
  "name_index h rs = snd (index_neos h rs (Map.empty, Map.empty))"

text \<open>One step of the linking loop: approach \<open>a\<close> gets NEO \<open>r\<close>, and \<open>r\<close> gets \<open>a\<close>
  appended.\<close>

definition linked :: "heap \<Rightarrow> ca_ref \<Rightarrow> neo_ref \<Rightarrow> heap" where
  "linked h a r =
     h\<lparr>ca_objs := (ca_objs h)(a := (ca_objs h a)\<lparr>neo := Some r\<rparr>),
       neo_objs := (neo_objs h)
         (r := (neo_objs h r)\<lparr>approaches := approaches (neo_objs h r) @ [a]\<rparr>)\<rparr>"

text \<open>The specification's reading of the factory: a criterion contributes one predicate
  when it is supplied and nothing when it is omitted.\<close>

definition supplied :: "('a \<Rightarrow> AttributeFilter) \<Rightarrow> 'a option \<Rightarrow> AttributeFilter list" where
  "supplied mk criterion = (case criterion of None \<Rightarrow> [] | Some v \<Rightarrow> [mk v])"

text \<open>Whether a filter is an instance of the base class itself.\<close>

fun is_base :: "AttributeFilter \<Rightarrow> bool" where
  "is_base (AttributeFilter _ _) = True"
| "is_base _ = False"

subsection \<open>Example data\<close>

text \<open>The NEO Eros with one close approach, before the database is built. The stand-in
  for \<open>cd_to_datetime\<close> knows the one time literal of the example.\<close>

definition eros :: NearEarthObject where
  "eros = \<lparr>designation = ''2000433'', name = Some ''Eros'', diameter = Fin 16.84,
           hazardous = False, approaches = []\<rparr>"

definition eros_approach :: CloseApproach where
  "eros_approach = \<lparr>ca_designation = ''2000433'',
       time = \<lparr>year = 2020, month = 1, day = 1, hour = 0, minute = 0\<rparr>,
       distance = Fin 0.15, velocity = Fin 5.2, neo = None\<rparr>"

definition eros_heap :: heap where
  "eros_heap = \<lparr>neo_objs = (\<lambda>_. eros), ca_objs = (\<lambda>_. eros_approach)\<rparr>"

definition cd_to_datetime_example :: "string \<Rightarrow> error + datetime" where
  "cd_to_datetime_example s =
     (if s = ''2020-Jan-01 00:00''
      then Inr \<lparr>year = 2020, month = 1, day = 1, hour = 0, minute = 0\<rparr>
      else Inl ValueError)"

text \<open>The value of \<open>sys.maxsize\<close> on a 64-bit build of the interpreter.\<close>

definition maxsize_64 :: int where
  "maxsize_64 = 2 ^ 63 - 1"

text \<open>The database built from Eros and its approach.\<close>

definition eros_db :: NEODatabase where
  "eros_db = \<lparr>db_neos = [0], db_approaches = [0],
       designation_to_neo = [''2000433'' \<mapsto> 0], name_to_neo = [''eros'' \<mapsto> 0]\<rparr>"

text \<open>Two NEOs whose designations differ in case only, and one approach that carries the
  designation of the first.\<close>

definition dup_heap :: heap where
  "dup_heap =
     \<lparr>neo_objs = (\<lambda>_. \<lparr>designation = ''2020 AB'', name = None, diameter = NaN,
                          hazardous = False, approaches = []\<rparr>)
          (1 := \<lparr>designation = ''2020 ab'', name = None, diameter = NaN,
                   hazardous = False, approaches = []\<rparr>),
       ca_objs = (\<lambda>_. \<lparr>ca_designation = ''2020 AB'',
                         time = \<lparr>year = 2020, month = 1, day = 1, hour = 0, minute = 0\<rparr>,
                         distance = Fin 0.15, velocity = Fin 5.2, neo = None\<rparr>)\<rparr>"

definition dup_db :: NEODatabase where
  "dup_db = \<lparr>db_neos = [0, 1], db_approaches = [0],
       designation_to_neo = [''2020 ab'' \<mapsto> 1], name_to_neo = Map.empty\<rparr>"

section \<open>Properties of the limiter\<close>

lemma take_iter_iter: "take_iter n (iter xs) = iter (take n xs)"
proof (induction n arbitrary: xs)
  case 0
  show ?case by simp
next
  case (Suc n)
  show ?case by (cases xs) (simp_all add: Suc)
qed

lemma yielded_iter: "yielded (iter xs) = xs"
  by (induction xs) simp_all

text \<open>
  C6 (amended). For a finite sequence \<open>seq\<close>, \<open>limit(seq, None)\<close> and \<open>limit(seq, 0)\<close> return
  the sequence itself. For a positive \<open>k\<close> that is not above \<open>sys.maxsize\<close>, the result of
  \<open>limit(seq, k)\<close> is the iterator over the first \<open>k\<close> items of \<open>seq\<close>: it yields them in
  their original order, and their number is the minimum of \<open>k\<close> and the length of \<open>seq\<close>.
  For a \<open>k\<close> above \<open>sys.maxsize\<close>, \<open>limit(seq, k)\<close> raises the value error of \<open>islice\<close>.
\<close>

theorem limit_finite_sequence:
  "limit maxsize (iter seq) None = Inr (iter seq) \<and>
   limit maxsize (iter seq) (Some 0) = Inr (iter seq) \<and>
   (0 < k \<and> k \<le> maxsize \<longrightarrow>
      limit maxsize (iter seq) (Some k) = Inr (iter (take (nat k) seq)) \<and>
      yielded (iter (take (nat k) seq)) = take (nat k) seq \<and>
      int (length (take (nat k) seq)) = min k (int (length seq))) \<and>
   (0 < k \<and> maxsize < k \<longrightarrow> limit maxsize (iter seq) (Some k) = Inl ValueError)"
  by (auto simp: limit_def islice_def take_iter_iter yielded_iter)

theorem limit_finite_sequence_witness:
  "(0::int) < 2 \<and> 2 \<le> maxsize_64 \<and>
   limit maxsize_64 (iter [10, 20, 30 :: nat]) (Some 2) = Inr (iter [10, 20]) \<and>
   yielded (iter [10, 20 :: nat]) = [10, 20] \<and>
   (0::int) < 5 \<and> 5 \<le> maxsize_64 \<and>
   limit maxsize_64 (iter [10, 20, 30 :: nat]) (Some 5) = Inr (iter [10, 20, 30]) \<and>
   (0::int) < 2 ^ 63 \<and> maxsize_64 < 2 ^ 63 \<and>
   limit maxsize_64 (iter [10, 20, 30 :: nat]) (Some (2 ^ 63)) = Inl ValueError"
  using limit_finite_sequence [of maxsize_64 "[10, 20, 30 :: nat]" 2]
        limit_finite_sequence [of maxsize_64 "[10, 20, 30 :: nat]" 5]
        limit_finite_sequence [of maxsize_64 "[10, 20, 30 :: nat]" "2 ^ 63"]
  by (simp add: maxsize_64_def numeral_2_eq_2)

text \<open>
  The claim as it stands, for every positive \<open>k\<close>, fails: on a 64-bit build a count of
  \<open>2 ** 63\<close> is above \<open>sys.maxsize\<close>, and \<open>limit\<close> raises instead of yielding the three items.
\<close>

theorem limit_above_maxsize_counterexample:
  "limit maxsize_64 (iter [10, 20, 30 :: nat]) (Some (2 ^ 63)) = Inl ValueError"
  by (simp add: limit_def islice_def maxsize_64_def)

section \<open>Properties of the constructors\<close>

lemma designation_message_nonempty: "designation_message d \<noteq> []"
  by (simp add: designation_message_def)

lemma assert_designation_simps:
  "assert_designation None = Inl (AssertionError (designation_message None))"
  "assert_designation (Some []) = Inl (AssertionError (designation_message (Some [])))"
  "d \<noteq> [] \<Longrightarrow> assert_designation (Some d) = Inr d"
  by (simp_all add: assert_designation_def)

text \<open>
  C8. Constructing a \<open>NearEarthObject\<close> or a \<open>CloseApproach\<close> with an absent or empty
  designation raises the assertion error of the designation check, whatever the other
  arguments are (the check runs before they are looked at). A non-empty designation
  passes the check in both constructors: an error they end in is one that a later
  statement raises (the conversion of the time, of a float, or the assertion on the
  diameter), never the error of the designation check for \<open>NearEarthObject\<close>; when the
  later statements raise nothing the constructor returns an object; and whenever either
  constructor returns an object, the object stores the designation unchanged.
\<close>

theorem designation_validation:
  "NearEarthObject_init None nm dia hz = Inl (AssertionError (designation_message None)) \<and>
   NearEarthObject_init (Some []) nm dia hz
     = Inl (AssertionError (designation_message (Some []))) \<and>
   CloseApproach_init cd None t dst vel = Inl (AssertionError (designation_message None)) \<and>
   CloseApproach_init cd (Some []) t dst vel
     = Inl (AssertionError (designation_message (Some []))) \<and>
   (d \<noteq> [] \<longrightarrow>
      assert_designation (Some d) = Inr d \<and>
      NearEarthObject_init (Some d) nm dia hz
        \<noteq> Inl (AssertionError (designation_message (Some d))) \<and>
      (\<forall>e. NearEarthObject_init (Some d) nm dia hz = Inl e \<longrightarrow>
           py_float dia = Inl e \<or> e = AssertionError []) \<and>
      (\<forall>x. py_float dia = Inr x \<and> (isnan x \<or> float_gt x (Fin 0)) \<longrightarrow>
           (\<exists>obj. NearEarthObject_init (Some d) nm dia hz = Inr obj \<and> designation obj = d)) \<and>
      (\<forall>obj. NearEarthObject_init (Some d) nm dia hz = Inr obj \<longrightarrow> designation obj = d) \<and>
      (\<forall>e. CloseApproach_init cd (Some d) t dst vel = Inl e \<longrightarrow>
           cd t = Inl e \<or> py_float dst = Inl e \<or> py_float vel = Inl e) \<and>
      (\<forall>tm x v. cd t = Inr tm \<and> py_float dst = Inr x \<and> py_float vel = Inr v \<longrightarrow>
           CloseApproach_init cd (Some d) t dst vel
             = Inr \<lparr>ca_designation = d, time = tm, distance = x, velocity = v, neo = None\<rparr>) \<and>
      (\<forall>obj. CloseApproach_init cd (Some d) t dst vel = Inr obj \<longrightarrow> ca_designation obj = d))"
proof -
  note c = assert_designation_simps(3)
  have neo_err: "NearEarthObject_init (Some d) nm dia hz
      \<noteq> Inl (AssertionError (designation_message (Some d)))" if "d \<noteq> []"
    using that designation_message_nonempty [of "Some d"]
    by (cases dia) (auto simp: NearEarthObject_init_def c Let_def)
  have neo_src: "\<forall>e. NearEarthObject_init (Some d) nm dia hz = Inl e \<longrightarrow>
           py_float dia = Inl e \<or> e = AssertionError []" if "d \<noteq> []"
    using that by (cases dia) (auto simp: NearEarthObject_init_def c Let_def split: if_splits)
  have neo_succ: "\<forall>x. py_float dia = Inr x \<and> (isnan x \<or> float_gt x (Fin 0)) \<longrightarrow>
           (\<exists>obj. NearEarthObject_init (Some d) nm dia hz = Inr obj \<and> designation obj = d)"
    if "d \<noteq> []"
    using that by (cases dia) (auto simp: NearEarthObject_init_def c Let_def)
  have neo_ok: "\<forall>obj. NearEarthObject_init (Some d) nm dia hz = Inr obj \<longrightarrow> designation obj = d"
    if "d \<noteq> []"
    using that by (cases dia) (auto simp: NearEarthObject_init_def c Let_def split: if_splits)
  have ca_src: "\<forall>e. CloseApproach_init cd (Some d) t dst vel = Inl e \<longrightarrow>
           cd t = Inl e \<or> py_float dst = Inl e \<or> py_float vel = Inl e" if "d \<noteq> []"
    using that by (auto simp: CloseApproach_init_def c split: sum.splits)
  have ca_succ: "\<forall>tm x v. cd t = Inr tm \<and> py_float dst = Inr x \<and> py_float vel = Inr v \<longrightarrow>
           CloseApproach_init cd (Some d) t dst vel
             = Inr \<lparr>ca_designation = d, time = tm, distance = x, velocity = v, neo = None\<rparr>"
    if "d \<noteq> []"
    using that by (simp add: CloseApproach_init_def c)
  have ca_ok: "\<forall>obj. CloseApproach_init cd (Some d) t dst vel = Inr obj \<longrightarrow> ca_designation obj = d"
    if "d \<noteq> []"
    using that by (auto simp: CloseApproach_init_def c split: sum.splits)
  have empty: "NearEarthObject_init None nm dia hz = Inl (AssertionError (designation_message None))"
    "NearEarthObject_init (Some []) nm dia hz
       = Inl (AssertionError (designation_message (Some [])))"
    "CloseApproach_init cd None t dst vel = Inl (AssertionError (designation_message None))"
    "CloseApproach_init cd (Some []) t dst vel
       = Inl (AssertionError (designation_message (Some [])))"
    by (simp_all add: NearEarthObject_init_def CloseApproach_init_def
        assert_designation_simps(1,2))
  show ?thesis
    by (intro conjI impI)
       (rule empty c neo_err neo_src neo_succ neo_ok ca_src ca_succ ca_ok, assumption?)+
qed

theorem designation_validation_witness:
  "''2000433'' \<noteq> [] \<and> assert_designation (Some ''2000433'') = Inr ''2000433'' \<and>
   py_float (ArgNum (Fin 16.84)) = Inr (Fin 16.84) \<and> float_gt (Fin 16.84) (Fin 0) \<and>
   NearEarthObject_init (Some ''2000433'') (Some ''Eros'') (ArgNum (Fin 16.84)) False
     = Inr eros \<and>
   designation eros = ''2000433'' \<and>
   cd_to_datetime_example ''2020-Jan-01 00:00''
     = Inr \<lparr>year = 2020, month = 1, day = 1, hour = 0, minute = 0\<rparr> \<and>
   py_float (ArgNum (Fin 0.15)) = Inr (Fin 0.15) \<and>
   py_float (ArgNum (Fin 5.2)) = Inr (Fin 5.2) \<and>
   CloseApproach_init cd_to_datetime_example (Some ''2000433'') ''2020-Jan-01 00:00''
       (ArgNum (Fin 0.15)) (ArgNum (Fin 5.2))
     = Inr eros_approach \<and>
   ca_designation eros_approach = ''2000433'' \<and>
   CloseApproach_init cd_to_datetime_example (Some ''2000433'') ''yesterday''
       (ArgNum (Fin 0.15)) (ArgNum (Fin 5.2))
     = Inl ValueError \<and>
   cd_to_datetime_example ''yesterday'' = Inl ValueError"
proof -
  have e: "assert_designation (Some ''2000433'') = Inr ''2000433''"
    "float_gt (Fin 16.84) (Fin 0)"
    "NearEarthObject_init (Some ''2000433'') (Some ''Eros'') (ArgNum (Fin 16.84)) False
       = Inr eros"
    "designation eros = ''2000433''"
    "cd_to_datetime_example ''2020-Jan-01 00:00''
       = Inr \<lparr>year = 2020, month = 1, day = 1, hour = 0, minute = 0\<rparr>"
    "CloseApproach_init cd_to_datetime_example (Some ''2000433'') ''2020-Jan-01 00:00''
         (ArgNum (Fin 0.15)) (ArgNum (Fin 5.2))
       = Inr eros_approach"
    "ca_designation eros_approach = ''2000433''"
    "CloseApproach_init cd_to_datetime_example (Some ''2000433'') ''yesterday''
         (ArgNum (Fin 0.15)) (ArgNum (Fin 5.2))
       = Inl ValueError"
    "cd_to_datetime_example ''yesterday'' = Inl ValueError"
    by (simp_all add: NearEarthObject_init_def CloseApproach_init_def assert_designation_def
        cd_to_datetime_example_def float_gt_def float_eq_def bool_of_def eros_def
        eros_approach_def)
  note t = designation_validation [of "Some ''Eros''" "ArgNum (Fin 16.84)" False
      cd_to_datetime_example "''2020-Jan-01 00:00''" "ArgNum (Fin 0.15)" "ArgNum (Fin 5.2)"
      "''2000433''"]
  from t e(5) have ca: "CloseApproach_init cd_to_datetime_example (Some ''2000433'')
         ''2020-Jan-01 00:00'' (ArgNum (Fin 0.15)) (ArgNum (Fin 5.2))
       = Inr \<lparr>ca_designation = ''2000433'',
              time = \<lparr>year = 2020, month = 1, day = 1, hour = 0, minute = 0\<rparr>,
              distance = Fin 0.15, velocity = Fin 5.2, neo = None\<rparr>"
    by simp
  from t e(2) have neo: "\<exists>obj. NearEarthObject_init (Some ''2000433'') (Some ''Eros'')
         (ArgNum (Fin 16.84)) False = Inr obj \<and> designation obj = ''2000433''"
    by simp
  from ca neo e show ?thesis by simp
qed

text \<open>
  C7 (amended). For a non-empty designation: a diameter argument that \<open>float\<close> turns into
  not-a-number gives an object whose diameter is not-a-number; one that it turns into a
  value greater than zero gives an object with that diameter; any other number fails the
  assertion on the diameter; an argument that \<open>float\<close> rejects makes the constructor raise
  that value error (the loader replaces such a field by \<open>'nan'\<close> before it calls the
  constructor). Whenever the constructor returns an object, its diameter is not-a-number
  or greater than zero, and its name is the name argument as passed: \<open>None\<close> stays \<open>None\<close>
  and a string stays that string (the loader passes \<open>None\<close> for an empty name field).
\<close>

theorem neo_construction:
  "d \<noteq> [] \<longrightarrow>
     NearEarthObject_init (Some d) nm (ArgNum NaN) hz
       = Inr \<lparr>designation = d, name = nm, diameter = NaN, hazardous = hz, approaches = []\<rparr> \<and>
     (float_gt x (Fin 0) \<longrightarrow>
        NearEarthObject_init (Some d) nm (ArgNum x) hz
          = Inr \<lparr>designation = d, name = nm, diameter = x, hazardous = hz, approaches = []\<rparr>) \<and>
     (\<not> isnan x \<and> \<not> float_gt x (Fin 0) \<longrightarrow>
        NearEarthObject_init (Some d) nm (ArgNum x) hz = Inl (AssertionError [])) \<and>
     NearEarthObject_init (Some d) nm ArgUnparsable hz = Inl ValueError \<and>
     (\<forall>obj. NearEarthObject_init (Some d) nm dia hz = Inr obj \<longrightarrow>
        name obj = nm \<and> (isnan (diameter obj) \<or> float_gt (diameter obj) (Fin 0)))"
proof -
  have gt_nan: "\<not> isnan x" if "float_gt x (Fin 0)"
    using that by (cases x) (simp_all add: float_gt_def)
  have last: "name obj = nm \<and> (isnan (diameter obj) \<or> float_gt (diameter obj) (Fin 0))"
    if "d \<noteq> []" "NearEarthObject_init (Some d) nm dia hz = Inr obj" for obj
    using that
    by (cases dia) (auto simp: NearEarthObject_init_def assert_designation_simps(3) Let_def
        bool_of_def split: if_splits)
  show ?thesis
    using gt_nan last
    by (auto simp: NearEarthObject_init_def assert_designation_simps(3) Let_def bool_of_def)
qed

theorem neo_construction_witness:
  "''2000433'' \<noteq> [] \<and>
   NearEarthObject_init (Some ''2000433'') (Some ''Eros'') (ArgNum NaN) False
     = Inr \<lparr>designation = ''2000433'', name = Some ''Eros'', diameter = NaN,
            hazardous = False, approaches = []\<rparr> \<and>
   float_gt (Fin 16.84) (Fin 0) \<and>
   NearEarthObject_init (Some ''2000433'') (Some ''Eros'') (ArgNum (Fin 16.84)) False = Inr eros \<and>
   name eros = Some ''Eros'' \<and>
   NearEarthObject_init (Some ''2000433'') (Some ''Eros'') ArgUnparsable False = Inl ValueError \<and>
   \<not> isnan (Fin 0) \<and> \<not> float_gt (Fin 0) (Fin 0) \<and>
   NearEarthObject_init (Some ''2000433'') (Some ''Eros'') (ArgNum (Fin 0)) False
     = Inl (AssertionError [])"
  using neo_construction [of "''2000433''" "Some ''Eros''" False "Fin 16.84" "ArgNum (Fin 16.84)"]
    neo_construction [of "''2000433''" "Some ''Eros''" False "Fin 0" "ArgNum (Fin 0)"]
  by (simp add: eros_def float_gt_def float_eq_def)

text \<open>
  The claim as it stands fails on the name: the constructor stores an empty name as the
  empty string.
\<close>

theorem empty_name_counterexample:
  "NearEarthObject_init (Some ''2000433'') (Some []) (ArgNum (Fin 16.84)) False
     = Inr \<lparr>designation = ''2000433'', name = Some [], diameter = Fin 16.84,
            hazardous = False, approaches = []\<rparr>"
  by (simp add: NearEarthObject_init_def assert_designation_def float_gt_def float_eq_def
      bool_of_def)

section \<open>Properties of the predicates\<close>

text \<open>
  C9. Evaluating an instance of the base class \<open>AttributeFilter\<close> on any close approach
  raises \<open>UnsupportedCriterionError\<close>. Evaluating a date, distance or velocity filter
  returns the boolean \<open>accessor(approach) OP value\<close>, and so do a diameter and a hazardous
  filter on an approach that is linked to its NEO; none of the five raises
  \<open>UnsupportedCriterionError\<close> there.
\<close>

theorem filter_evaluation:
  "call h (AttributeFilter op' v) a = Inl UnsupportedCriterionError \<and>
   call h (DateFilter op' dv) a = Inr (apply_op op' (date_of (time (ca_objs h a))) dv) \<and>
   call h (DistanceFilter op' fv) a = Inr (float_op op' (distance (ca_objs h a)) fv) \<and>
   call h (VelocityFilter op' fv) a = Inr (float_op op' (velocity (ca_objs h a)) fv) \<and>
   (neo (ca_objs h a) = Some r \<longrightarrow>
      call h (DiameterFilter op' fv) a = Inr (float_op op' (diameter (neo_objs h r)) fv) \<and>
      call h (HazardousFilter op' bv) a = Inr (apply_op op' (hazardous (neo_objs h r)) bv) \<and>
      (\<forall>f. \<not> is_base f \<longrightarrow> call h f a \<noteq> Inl UnsupportedCriterionError))"
proof -
  have "call h f a \<noteq> Inl UnsupportedCriterionError"
    if "neo (ca_objs h a) = Some r" "\<not> is_base f" for f
    using that
    by (cases f) (simp_all add: DateFilter_get_def DistanceFilter_get_def
        VelocityFilter_get_def DiameterFilter_get_def HazardousFilter_get_def)
  then show ?thesis
    by (simp add: AttributeFilter_get_def DateFilter_get_def DistanceFilter_get_def
        VelocityFilter_get_def DiameterFilter_get_def HazardousFilter_get_def)
qed

theorem filter_evaluation_witness:
  "neo (ca_objs (linked eros_heap 0 0) 0) = Some 0 \<and>
   call (linked eros_heap 0 0) (AttributeFilter Ge (RBool True)) 0
     = Inl UnsupportedCriterionError \<and>
   call (linked eros_heap 0 0) (DiameterFilter Ge (Fin 1)) 0 = Inr True \<and>
   call (linked eros_heap 0 0) (HazardousFilter Ge True) 0 = Inr False \<and>
   \<not> is_base (HazardousFilter Ge True) \<and>
   call (linked eros_heap 0 0) (HazardousFilter Ge True) 0 \<noteq> Inl UnsupportedCriterionError"
  using filter_evaluation [where h = "linked eros_heap 0 0" and a = 0 and r = 0
            and op' = Ge and fv = "Fin 1" and bv = True and dv = "(2020, 1, 1)"
            and v = "RBool True"]
  by (simp add: linked_def eros_heap_def eros_def eros_approach_def float_op_def
      float_ge_def apply_op_def DiameterFilter_get_def HazardousFilter_get_def
      AttributeFilter_get_def)

text \<open>
  C10. On a close approach whose \<open>neo\<close> reference is still \<open>None\<close>, a diameter filter and a
  hazardous filter do not return a boolean: they raise an attribute error. These two
  variants return a boolean exactly on approaches that are linked. The date, distance
  and velocity variants return their comparison without reading the \<open>neo\<close> reference:
  their result is the same whatever that reference is set to.
\<close>

theorem unlinked_approach_filters:
  "(neo (ca_objs h a) = None \<longrightarrow>
      call h (DiameterFilter op' fv) a = Inl AttributeError \<and>
      call h (HazardousFilter op' bv) a = Inl AttributeError \<and>
      call h (DateFilter op' dv) a = Inr (apply_op op' (date_of (time (ca_objs h a))) dv) \<and>
      call h (DistanceFilter op' fv) a = Inr (float_op op' (distance (ca_objs h a)) fv) \<and>
      call h (VelocityFilter op' fv) a = Inr (float_op op' (velocity (ca_objs h a)) fv)) \<and>
   ((\<exists>b. call h (DiameterFilter op' fv) a = Inr b) \<longleftrightarrow> neo (ca_objs h a) \<noteq> None) \<and>
   ((\<exists>b. call h (HazardousFilter op' bv) a = Inr b) \<longleftrightarrow> neo (ca_objs h a) \<noteq> None) \<and>
   call (h\<lparr>ca_objs := (ca_objs h)(a := (ca_objs h a)\<lparr>neo := n\<rparr>)\<rparr>) (DateFilter op' dv) a
     = call h (DateFilter op' dv) a \<and>
   call (h\<lparr>ca_objs := (ca_objs h)(a := (ca_objs h a)\<lparr>neo := n\<rparr>)\<rparr>) (DistanceFilter op' fv) a
     = call h (DistanceFilter op' fv) a \<and>
   call (h\<lparr>ca_objs := (ca_objs h)(a := (ca_objs h a)\<lparr>neo := n\<rparr>)\<rparr>) (VelocityFilter op' fv) a
     = call h (VelocityFilter op' fv) a"
  by (auto simp: DateFilter_get_def DistanceFilter_get_def VelocityFilter_get_def
      DiameterFilter_get_def HazardousFilter_get_def split: option.splits)

theorem unlinked_approach_filters_witness:
  "neo (ca_objs eros_heap 0) = None \<and>
   call eros_heap (DiameterFilter Ge (Fin 0.1)) 0 = Inl AttributeError \<and>
   call eros_heap (HazardousFilter Ge False) 0 = Inl AttributeError \<and>
   call eros_heap (DateFilter Ge (2020, 1, 1)) 0 = Inr True \<and>
   call eros_heap (DistanceFilter Ge (Fin 0.1)) 0 = Inr True \<and>
   call eros_heap (VelocityFilter Ge (Fin 0.1)) 0 = Inr True"
  using unlinked_approach_filters [where h = eros_heap and a = 0 and op' = Ge
            and fv = "Fin 0.1" and bv = False and dv = "(2020, 1, 1)" and n = "Some 0"]
  by (simp add: eros_heap_def eros_def eros_approach_def float_op_def float_ge_def
      apply_op_def date_of_def DateFilter_get_def DistanceFilter_get_def
      VelocityFilter_get_def DiameterFilter_get_def HazardousFilter_get_def)

section \<open>Properties of the factory\<close>

lemma append_supplied:
  "(case c of None \<Rightarrow> fs | Some v \<Rightarrow> fs @ [mk v]) = fs @ supplied mk c"
  by (simp add: supplied_def split: option.split)

lemma length_supplied: "length (supplied mk c) = of_bool (c \<noteq> None)"
  by (simp add: supplied_def split: option.split)

lemma create_filters_supplied:
  "create_filters d sd ed dmin dmax vmin vmax amin amax hz =
     supplied (DateFilter Eq) d @ supplied (DateFilter Ge) sd @ supplied (DateFilter Le) ed
     @ supplied (DistanceFilter Ge) dmin @ supplied (DistanceFilter Le) dmax
     @ supplied (VelocityFilter Ge) vmin @ supplied (VelocityFilter Le) vmax
     @ supplied (DiameterFilter Ge) amin @ supplied (DiameterFilter Le) amax
     @ supplied (HazardousFilter Eq) hz"
  unfolding create_filters_def Let_def float_of_def bool_of_def append_supplied
  by simp

text \<open>
  C4. \<open>create_filters\<close> returns, in this order, one predicate for each supplied criterion
  and none for an omitted one: date (equal), start date (greater-or-equal), end date
  (less-or-equal), then minimum (greater-or-equal) and maximum (less-or-equal) of
  distance, of velocity and of diameter, then hazardous (equal). The reference values of
  the distance, velocity and diameter predicates are floats, that of the hazardous
  predicate a boolean. The length of the list is the number of supplied criteria.
\<close>

theorem create_filters_one_per_criterion:
  "create_filters d sd ed dmin dmax vmin vmax amin amax hz =
     supplied (DateFilter Eq) d @ supplied (DateFilter Ge) sd @ supplied (DateFilter Le) ed
     @ supplied (DistanceFilter Ge) dmin @ supplied (DistanceFilter Le) dmax
     @ supplied (VelocityFilter Ge) vmin @ supplied (VelocityFilter Le) vmax
     @ supplied (DiameterFilter Ge) amin @ supplied (DiameterFilter Le) amax
     @ supplied (HazardousFilter Eq) hz \<and>
   length (create_filters d sd ed dmin dmax vmin vmax amin amax hz) =
     of_bool (d \<noteq> None) + of_bool (sd \<noteq> None) + of_bool (ed \<noteq> None)
     + of_bool (dmin \<noteq> None) + of_bool (dmax \<noteq> None)
     + of_bool (vmin \<noteq> None) + of_bool (vmax \<noteq> None)
     + of_bool (amin \<noteq> None) + of_bool (amax \<noteq> None) + of_bool (hz \<noteq> None)"
  unfolding create_filters_supplied length_append length_supplied
  by simp

theorem create_filters_one_per_criterion_witness:
  "create_filters None None None (Some (Fin 0.1)) (Some (Fin 0.2)) None None None None None
     = [DistanceFilter Ge (Fin 0.1), DistanceFilter Le (Fin 0.2)] \<and>
   create_filters (Some (2020, 1, 1)) None None None None None None None None (Some False)
     = [DateFilter Eq (2020, 1, 1), HazardousFilter Eq False]"
  using create_filters_one_per_criterion [of None None None "Some (Fin 0.1)" "Some (Fin 0.2)"
      None None None None None]
    create_filters_one_per_criterion [of "Some (2020, 1, 1)" None None None None
      None None None None "Some False"]
  by (simp add: supplied_def)

section \<open>Properties of the database\<close>

subsection \<open>The indices\<close>

lemma index_neos_fst:
  "fst (index_neos h rs (d2n, n2n)) = d2n ++ map_of (rev (map (\<lambda>r. (neo_key h r, r)) rs))"
proof (induction rs arbitrary: d2n n2n)
  case Nil
  show ?case by simp
next
  case (Cons r rs)
  show ?case
    by (simp add: Let_def Cons.IH neo_key_def fun_eq_iff map_add_def split: option.split)
qed

lemma index_neos_snd:
  "snd (index_neos h rs (d2n, n2n)) =
     n2n ++ map_of (rev (map (\<lambda>r. (lower (the (name (neo_objs h r))), r))
        (filter (\<lambda>r. name (neo_objs h r) \<noteq> None) rs)))"
proof (induction rs arbitrary: d2n n2n)
  case Nil
  show ?case by simp
next
  case (Cons r rs)
  show ?case
    by (simp add: Let_def Cons.IH fun_eq_iff map_add_def split: option.split)
qed

lemma designation_index_None:
  "designation_index h rs k = None \<longleftrightarrow> (\<forall>r \<in> set rs. neo_key h r \<noteq> k)"
  by (auto simp: designation_index_def index_neos_fst map_of_eq_None_iff image_iff)

lemma designation_index_Some:
  "designation_index h rs k = Some r \<Longrightarrow> r \<in> set rs \<and> neo_key h r = k"
  by (auto simp: designation_index_def index_neos_fst dest!: map_of_SomeD)

lemma name_index_None:
  "name_index h rs k = None \<longleftrightarrow>
     (\<forall>r \<in> set rs. \<forall>nm. name (neo_objs h r) = Some nm \<longrightarrow> lower nm \<noteq> k)"
  by (auto simp: name_index_def index_neos_snd map_of_eq_None_iff image_iff)

lemma name_index_Some:
  "name_index h rs k = Some r \<Longrightarrow>
     r \<in> set rs \<and> (\<exists>nm. name (neo_objs h r) = Some nm \<and> lower nm = k)"
  by (auto simp: name_index_def index_neos_snd dest!: map_of_SomeD)

lemma designation_index_distinct:
  "distinct (map (neo_key h) rs) \<Longrightarrow> r \<in> set rs \<Longrightarrow> designation_index h rs (neo_key h r) = Some r"
  apply (simp add: designation_index_def index_neos_fst)
  apply (rule map_of_is_SomeI)
  apply (auto simp: rev_map[symmetric] comp_def)
  done

lemma link_approaches_Cons:
  "link_approaches d2n (a # as) h =
     (case d2n (ca_key h a) of
        None \<Rightarrow> Inl (KeyError (ca_key h a))
      | Some r \<Rightarrow> link_approaches d2n as (linked h a r))"
  by (simp add: Let_def ca_key_def linked_def split: option.split)

lemma ca_key_linked: "ca_key (linked h a r) x = ca_key h x"
  by (simp add: ca_key_def linked_def)

lemma ca_objs_linked:
  "ca_objs (linked h a r) x = (if x = a then (ca_objs h a)\<lparr>neo := Some r\<rparr> else ca_objs h x)"
  by (simp add: linked_def)

lemma neo_objs_linked:
  "neo_objs (linked h a r) r' =
     (if r' = r then (neo_objs h r)\<lparr>approaches := approaches (neo_objs h r) @ [a]\<rparr>
      else neo_objs h r')"
  by (simp add: linked_def)

lemma link_approaches_Inr:
  "link_approaches d2n as h = Inr h' \<Longrightarrow>
     (\<forall>a \<in> set as. d2n (ca_key h a) \<noteq> None) \<and>
     (\<forall>a. ca_objs h' a =
        (if a \<in> set as then (ca_objs h a)\<lparr>neo := d2n (ca_key h a)\<rparr> else ca_objs h a)) \<and>
     (\<forall>r. neo_objs h' r = (neo_objs h r)\<lparr>approaches := approaches (neo_objs h r)
          @ filter (\<lambda>a. d2n (ca_key h a) = Some r) as\<rparr>)"
proof (induction as arbitrary: h)
  case Nil
  then show ?case by simp
next
  case (Cons a as)
  from Cons.prems obtain r where r: "d2n (ca_key h a) = Some r"
    and rest: "link_approaches d2n as (linked h a r) = Inr h'"
    by (auto simp: link_approaches_Cons simp del: link_approaches.simps split: option.splits)
  note IH = Cons.IH [OF rest, unfolded ca_key_linked]
  have 1: "\<forall>x \<in> set (a # as). d2n (ca_key h x) \<noteq> None"
    using IH r by simp
  have 2: "\<forall>x. ca_objs h' x =
        (if x \<in> set (a # as) then (ca_objs h x)\<lparr>neo := d2n (ca_key h x)\<rparr> else ca_objs h x)"
    using IH r by (simp add: ca_objs_linked)
  have 3: "\<forall>r'. neo_objs h' r' = (neo_objs h r')\<lparr>approaches := approaches (neo_objs h r')
          @ filter (\<lambda>x. d2n (ca_key h x) = Some r') (a # as)\<rparr>"
    using IH r by (simp add: neo_objs_linked)
  from 1 2 3 show ?case by blast
qed

lemma link_approaches_succeeds:
  "(\<forall>a \<in> set as. d2n (ca_key h a) \<noteq> None) \<Longrightarrow> \<exists>h'. link_approaches d2n as h = Inr h'"
proof (induction as arbitrary: h)
  case Nil
  show ?case by simp
next
  case (Cons a as)
  then obtain r where r: "d2n (ca_key h a) = Some r" by auto
  have "\<forall>x \<in> set as. d2n (ca_key (linked h a r) x) \<noteq> None"
    using Cons.prems by (simp add: ca_key_linked)
  from Cons.IH [OF this] show ?case
    by (simp add: link_approaches_Cons r del: link_approaches.simps)
qed

lemma link_approaches_fails:
  "\<exists>a \<in> set as. d2n (ca_key h a) = None \<Longrightarrow>
     \<exists>a \<in> set as. d2n (ca_key h a) = None \<and> link_approaches d2n as h = Inl (KeyError (ca_key h a))"
proof (induction as arbitrary: h)
  case Nil
  then show ?case by simp
next
  case (Cons a as)
  show ?case
  proof (cases "d2n (ca_key h a)")
    case None
    then show ?thesis by (simp add: link_approaches_Cons del: link_approaches.simps)
  next
    case (Some r)
    with Cons.prems have "\<exists>x \<in> set as. d2n (ca_key (linked h a r) x) = None"
      by (auto simp: ca_key_linked)
    from Cons.IH [OF this] show ?thesis
      by (auto simp: link_approaches_Cons Some ca_key_linked simp del: link_approaches.simps)
  qed
qed

lemma NEODatabase_init_eq:
  "NEODatabase_init h rs as =
     (case link_approaches (designation_index h rs) as h of
        Inl e \<Rightarrow> Inl e
      | Inr h' \<Rightarrow> Inr (h', \<lparr>db_neos = rs, db_approaches = as,
             designation_to_neo = designation_index h rs, name_to_neo = name_index h rs\<rparr>))"
  unfolding NEODatabase_init_def designation_index_def name_index_def case_prod_beta
  by (rule refl)

lemma NEODatabase_init_Inr:
  assumes "NEODatabase_init h rs as = Inr (h', db)"
  shows "db = \<lparr>db_neos = rs, db_approaches = as,
             designation_to_neo = designation_index h rs, name_to_neo = name_index h rs\<rparr>"
    and "link_approaches (designation_index h rs) as h = Inr h'"
  using assms by (auto simp: NEODatabase_init_eq split: sum.splits)

lemma link_preserves_neo_fields:
  assumes "link_approaches d2n as h = Inr h'"
  shows "designation (neo_objs h' r) = designation (neo_objs h r)"
    and "name (neo_objs h' r) = name (neo_objs h r)"
    and "ca_designation (ca_objs h' a) = ca_designation (ca_objs h a)"
  using link_approaches_Inr [OF assms] by simp_all

lemma link_preserves_keys:
  assumes "link_approaches d2n as h = Inr h'"
  shows "neo_key h' r = neo_key h r" and "ca_key h' a = ca_key h a"
  using link_preserves_neo_fields [OF assms] by (simp_all add: neo_key_def ca_key_def)

lemma eros_init: "NEODatabase_init eros_heap [0] [0] = Inr (linked eros_heap 0 0, eros_db)"
  by (simp add: NEODatabase_init_def Let_def eros_heap_def eros_def eros_approach_def
      eros_db_def linked_def lower_def lower_char_def)

lemma dup_init: "NEODatabase_init dup_heap [0, 1] [0] = Inr (linked dup_heap 0 1, dup_db)"
  by (simp add: NEODatabase_init_def Let_def dup_heap_def dup_db_def linked_def lower_def
      lower_char_def)

text \<open>
  C3. Construction ends in a key error as soon as some approach of the collection has a
  lowercased designation that is not a key of the designation index; the error names the
  key of such an approach, so none is skipped. When every approach's designation matches
  the designation of some NEO case-insensitively, construction returns a database. The
  keys of the index are the lowercased designations of the NEOs.
\<close>

theorem construction_lookup_error:
  "((\<exists>a \<in> set as. ca_key h a \<notin> dom (designation_index h rs)) \<longrightarrow>
      (\<exists>a \<in> set as. ca_key h a \<notin> dom (designation_index h rs) \<and>
         NEODatabase_init h rs as = Inl (KeyError (ca_key h a)))) \<and>
   ((\<forall>a \<in> set as. \<exists>r \<in> set rs. neo_key h r = ca_key h a) \<longrightarrow>
      (\<exists>h' db. NEODatabase_init h rs as = Inr (h', db))) \<and>
   dom (designation_index h rs) = neo_key h ` set rs"
proof -
  have d: "dom (designation_index h rs) = neo_key h ` set rs"
    using designation_index_None [of h rs] by (auto simp: dom_def)
  have f: "\<exists>a \<in> set as. ca_key h a \<notin> dom (designation_index h rs) \<and>
         NEODatabase_init h rs as = Inl (KeyError (ca_key h a))"
    if "\<exists>a \<in> set as. ca_key h a \<notin> dom (designation_index h rs)"
  proof -
    from that have "\<exists>a \<in> set as. designation_index h rs (ca_key h a) = None"
      by (auto simp: dom_def)
    from link_approaches_fails [OF this] show ?thesis
      by (auto simp: NEODatabase_init_eq dom_def)
  qed
  have s: "\<exists>h' db. NEODatabase_init h rs as = Inr (h', db)"
    if "\<forall>a \<in> set as. \<exists>r \<in> set rs. neo_key h r = ca_key h a"
  proof -
    from that have "\<forall>a \<in> set as. designation_index h rs (ca_key h a) \<noteq> None"
      by (auto simp: designation_index_None)
    from link_approaches_succeeds [OF this] show ?thesis
      by (auto simp: NEODatabase_init_eq)
  qed
  from d f s show ?thesis by blast
qed

theorem construction_lookup_error_witness:
  "ca_key eros_heap 0 \<notin> dom (designation_index eros_heap []) \<and>
   NEODatabase_init eros_heap [] [0] = Inl (KeyError ''2000433'') \<and>
   neo_key eros_heap 0 = ca_key eros_heap 0 \<and>
   NEODatabase_init eros_heap [0] [0] = Inr (linked eros_heap 0 0, eros_db) \<and>
   dom (designation_index eros_heap [0]) = {''2000433''}"
  using construction_lookup_error [of "[0]" eros_heap "[]"]
    construction_lookup_error [of "[0]" eros_heap "[0]"] eros_init
  by (simp add: designation_index_def ca_key_def neo_key_def eros_heap_def eros_def
      eros_approach_def lower_def lower_char_def)

text \<open>
  C5. After construction, \<open>get_neo_by_designation\<close> and \<open>get_neo_by_name\<close> return what the
  index holds under the lowercased argument: \<open>None\<close> exactly when no NEO of the collection
  has that designation (that name) up to case, and otherwise a NEO of the collection whose
  designation (name) equals the argument up to case. Arguments that are equal up to case
  give the same answer. The functions return an optional reference and raise nothing.
\<close>

theorem lookup_by_key:
  assumes "NEODatabase_init h rs as = Inr (h', db)"
  shows
    "get_neo_by_designation db s = designation_to_neo db (lower s) \<and>
     (get_neo_by_designation db s = None \<longleftrightarrow>
        (\<forall>r \<in> set rs. lower (designation (neo_objs h' r)) \<noteq> lower s)) \<and>
     (\<forall>r. get_neo_by_designation db s = Some r \<longrightarrow>
        r \<in> set rs \<and> lower (designation (neo_objs h' r)) = lower s) \<and>
     (lower s = lower s' \<longrightarrow> get_neo_by_designation db s = get_neo_by_designation db s') \<and>
     get_neo_by_name db s = name_to_neo db (lower s) \<and>
     (get_neo_by_name db s = None \<longleftrightarrow>
        (\<forall>r \<in> set rs. \<forall>nm. name (neo_objs h' r) = Some nm \<longrightarrow> lower nm \<noteq> lower s)) \<and>
     (\<forall>r. get_neo_by_name db s = Some r \<longrightarrow>
        r \<in> set rs \<and> (\<exists>nm. name (neo_objs h' r) = Some nm \<and> lower nm = lower s)) \<and>
     (lower s = lower s' \<longrightarrow> get_neo_by_name db s = get_neo_by_name db s')"
proof -
  note db = NEODatabase_init_Inr(1) [OF assms]
  note link = NEODatabase_init_Inr(2) [OF assms]
  note keep = link_preserves_neo_fields(1,2) [OF link]
  have gd: "get_neo_by_designation db x = designation_index h rs (lower x)" for x
    by (simp add: get_neo_by_designation_def db Let_def)
  have gn: "get_neo_by_name db x = name_index h rs (lower x)" for x
    by (simp add: get_neo_by_name_def db Let_def)
  have d1: "get_neo_by_designation db s = None \<longleftrightarrow>
        (\<forall>r \<in> set rs. lower (designation (neo_objs h' r)) \<noteq> lower s)"
    by (simp add: gd designation_index_None neo_key_def keep)
  have d2: "\<forall>r. get_neo_by_designation db s = Some r \<longrightarrow>
        r \<in> set rs \<and> lower (designation (neo_objs h' r)) = lower s"
    using designation_index_Some [of h rs "lower s"] by (simp add: gd neo_key_def keep)
  have n1: "get_neo_by_name db s = None \<longleftrightarrow>
        (\<forall>r \<in> set rs. \<forall>nm. name (neo_objs h' r) = Some nm \<longrightarrow> lower nm \<noteq> lower s)"
    by (simp add: gn name_index_None keep)
  have n2: "\<forall>r. get_neo_by_name db s = Some r \<longrightarrow>
        r \<in> set rs \<and> (\<exists>nm. name (neo_objs h' r) = Some nm \<and> lower nm = lower s)"
    using name_index_Some [of h rs "lower s"] by (simp add: gn keep)
  have e: "get_neo_by_designation db s = designation_to_neo db (lower s)"
     "get_neo_by_name db s = name_to_neo db (lower s)"
    by (simp_all add: get_neo_by_designation_def get_neo_by_name_def Let_def)
  show ?thesis
    using d1 d2 n1 n2 e by (simp add: gd gn)
qed

theorem lookup_by_key_witness:
  "NEODatabase_init eros_heap [0] [0] = Inr (linked eros_heap 0 0, eros_db) \<and>
   get_neo_by_designation eros_db ''2000433'' = Some 0 \<and>
   get_neo_by_name eros_db ''EROS'' = Some 0 \<and>
   lower ''EROS'' = lower ''eros'' \<and>
   get_neo_by_name eros_db ''eros'' = Some 0 \<and>
   get_neo_by_name eros_db ''Ceres'' = None \<and>
   get_neo_by_designation eros_db ''433'' = None"
  using lookup_by_key [OF eros_init, of "''EROS''" "''eros''"]
    lookup_by_key [OF eros_init, of "''2000433''" "''2000433''"] eros_init
  by (simp add: get_neo_by_designation_def get_neo_by_name_def eros_db_def lower_def
      lower_char_def)

subsection \<open>Queries\<close>

lemma call_raises:
  "call h f a = Inl e \<Longrightarrow> is_base f \<or> neo (ca_objs h a) = None"
  by (cases f) (auto simp: DateFilter_get_def DistanceFilter_get_def VelocityFilter_get_def
      DiameterFilter_get_def HazardousFilter_get_def split: option.splits)

lemma call_base: "is_base f \<Longrightarrow> call h f a = Inl UnsupportedCriterionError"
  by (cases f) (simp_all add: AttributeFilter_get_def)

lemma passes_True_iff:
  "passes h fs a = Inr True \<longleftrightarrow> (\<forall>f \<in> set fs. call h f a = Inr True)"
  by (induction fs) (auto split: sum.splits)

lemma passes_total:
  "(\<forall>f \<in> set fs. \<exists>b. call h f a = Inr b) \<Longrightarrow>
     passes h fs a = Inr (\<forall>f \<in> set fs. call h f a = Inr True)"
  by (induction fs) (auto split: sum.splits)

lemma query_from_yielded_subset:
  "yielded (query_from h fs as) = []" if "\<forall>a. passes h fs a \<noteq> Inr True"
  using that by (induction as) (auto split: sum.splits)

lemma query_from_total:
  "(\<forall>a \<in> set as. \<forall>f \<in> set fs. \<exists>b. call h f a = Inr b) \<Longrightarrow>
     query_from h fs as = iter (filter (\<lambda>a. \<forall>f \<in> set fs. call h f a = Inr True) as)"
  by (induction as) (simp_all add: passes_total)

lemma query_from_yielded:
  assumes "\<forall>a \<in> set as. neo (ca_objs h a) \<noteq> None"
  shows "yielded (query_from h fs as) =
           filter (\<lambda>a. \<forall>f \<in> set fs. call h f a = Inr True) as"
proof (cases "\<exists>f \<in> set fs. is_base f")
  case True
  then obtain f where f: "f \<in> set fs" "is_base f" by blast
  then have never: "\<not> (\<forall>f \<in> set fs. call h f a = Inr True)" for a
    using call_base [OF f(2), of h a] f(1) by force
  then have "\<forall>a. passes h fs a \<noteq> Inr True" by (simp add: passes_True_iff)
  then have "yielded (query_from h fs as) = []" by (rule query_from_yielded_subset)
  with never show ?thesis by simp
next
  case False
  have "\<forall>a \<in> set as. \<forall>f \<in> set fs. \<exists>b. call h f a = Inr b"
  proof (intro ballI)
    fix a f assume "a \<in> set as" "f \<in> set fs"
    with assms False have "neo (ca_objs h a) \<noteq> None" "\<not> is_base f" by auto
    then show "\<exists>b. call h f a = Inr b"
      using call_raises [of h f a] by (cases "call h f a") auto
  qed
  then show ?thesis by (simp add: query_from_total yielded_iter)
qed

text \<open>
  C2. On a constructed database, the approaches \<open>query(filters)\<close> yields are exactly those
  of the approach collection on which every filter of the list evaluates to true, in the
  order of the collection. When no filter is an instance of the base class, the generator
  is the iterator over that list and ends normally. With no filter it is the iterator
  over the whole collection. Two filter lists with the same members, in whatever order,
  yield the same approaches.
\<close>

theorem query_filters:
  assumes "NEODatabase_init h rs as = Inr (h', db)"
  shows "yielded (query h' db fs) = filter (\<lambda>a. \<forall>f \<in> set fs. call h' f a = Inr True) as \<and>
     ((\<forall>f \<in> set fs. \<not> is_base f) \<longrightarrow>
        query h' db fs = iter (filter (\<lambda>a. \<forall>f \<in> set fs. call h' f a = Inr True) as)) \<and>
     query h' db [] = iter as \<and>
     (set fs = set fs' \<longrightarrow> yielded (query h' db fs) = yielded (query h' db fs'))"
proof -
  note db = NEODatabase_init_Inr(1) [OF assms]
  note link = link_approaches_Inr [OF NEODatabase_init_Inr(2) [OF assms]]
  have q: "query h' db gs = query_from h' gs as" for gs
    by (simp add: query_def db)
  have linked: "\<forall>a \<in> set as. neo (ca_objs h' a) \<noteq> None"
    using link by simp
  have y: "yielded (query h' db gs) = filter (\<lambda>a. \<forall>f \<in> set gs. call h' f a = Inr True) as"
    for gs
    unfolding q by (rule query_from_yielded [OF linked])
  have t: "query h' db fs = iter (filter (\<lambda>a. \<forall>f \<in> set fs. call h' f a = Inr True) as)"
    if nb: "\<forall>f \<in> set fs. \<not> is_base f"
  proof -
    have "\<forall>a \<in> set as. \<forall>f \<in> set fs. \<exists>b. call h' f a = Inr b"
    proof (intro ballI)
      fix a f assume "a \<in> set as" "f \<in> set fs"
      with linked nb have "neo (ca_objs h' a) \<noteq> None" "\<not> is_base f" by auto
      then show "\<exists>b. call h' f a = Inr b"
        using call_raises [of h' f a] by (cases "call h' f a") auto
    qed
    then show ?thesis unfolding q by (rule query_from_total)
  qed
  have e: "query h' db [] = iter as"
    unfolding q by (induction as) simp_all
  have p: "yielded (query h' db fs) = yielded (query h' db fs')" if "set fs = set fs'"
    using that by (simp add: y)
  from y [of fs] t e p show ?thesis by blast
qed

theorem query_filters_witness:
  "NEODatabase_init eros_heap [0] [0] = Inr (linked eros_heap 0 0, eros_db) \<and>
   yielded (query (linked eros_heap 0 0) eros_db
      [HazardousFilter Eq False, DistanceFilter Ge (Fin 0.1)]) = [0] \<and>
   \<not> is_base (HazardousFilter Eq False) \<and> \<not> is_base (DistanceFilter Ge (Fin 0.1)) \<and>
   query (linked eros_heap 0 0) eros_db
      [HazardousFilter Eq False, DistanceFilter Ge (Fin 0.1)] = iter [0] \<and>
   set [HazardousFilter Eq False, DistanceFilter Ge (Fin 0.1)]
     = set [DistanceFilter Ge (Fin 0.1), HazardousFilter Eq False] \<and>
   yielded (query (linked eros_heap 0 0) eros_db
      [DistanceFilter Ge (Fin 0.1), HazardousFilter Eq False]) = [0] \<and>
   query (linked eros_heap 0 0) eros_db [] = iter [0]"
proof -
  have c: "call (linked eros_heap 0 0) (HazardousFilter Eq False) 0 = Inr True"
    "call (linked eros_heap 0 0) (DistanceFilter Ge (Fin 0.1)) 0 = Inr True"
    by (simp_all add: linked_def eros_heap_def eros_def eros_approach_def
        HazardousFilter_get_def DistanceFilter_get_def apply_op_def float_op_def float_ge_def)
  show ?thesis
    using query_filters [OF eros_init,
      of "[HazardousFilter Eq False, DistanceFilter Ge (Fin 0.1)]"
         "[DistanceFilter Ge (Fin 0.1), HazardousFilter Eq False]"] eros_init c
    by (auto simp add: insert_commute simp del: call.simps)
qed

text \<open>
  C1 (amended). After a successful construction every approach that \<open>query(())\<close> yields has
  a NEO, and the NEO's designation equals the approach's designation up to case. When no
  two NEOs of the collection have the same designation up to case, the approaches of each
  NEO are those it had before (none for a new NEO) followed by exactly the input
  approaches whose designation equals its own up to case, in input order. In general a
  NEO receives the input approaches whose key the designation index maps to it, and a NEO
  that the index does not hold under its own key receives none.
\<close>

theorem linking_invariant:
  assumes "NEODatabase_init h rs as = Inr (h', db)"
  shows "(\<forall>a \<in> set (yielded (query h' db [])).
            \<exists>r. neo (ca_objs h' a) = Some r \<and>
                lower (designation (neo_objs h' r)) = lower (ca_designation (ca_objs h' a))) \<and>
     (distinct (map (neo_key h) rs) \<longrightarrow>
        (\<forall>r \<in> set rs. approaches (neo_objs h' r) =
           approaches (neo_objs h r) @
           filter (\<lambda>a. lower (ca_designation (ca_objs h' a))
                        = lower (designation (neo_objs h' r))) as)) \<and>
     (\<forall>r. approaches (neo_objs h' r) =
           approaches (neo_objs h r) @
           filter (\<lambda>a. designation_to_neo db (ca_key h' a) = Some r) as) \<and>
     (\<forall>r. designation_to_neo db (neo_key h' r) \<noteq> Some r \<longrightarrow>
           approaches (neo_objs h' r) = approaches (neo_objs h r))"
proof -
  note db = NEODatabase_init_Inr(1) [OF assms]
  note l = NEODatabase_init_Inr(2) [OF assms]
  note link = link_approaches_Inr [OF l]
  note keys = link_preserves_keys [OF l]
  have d2n: "designation_to_neo db = designation_index h rs" by (simp add: db)
  have q: "yielded (query h' db []) = as"
  proof -
    have "query_from h' [] as = iter as" by (induction as) simp_all
    then show ?thesis by (simp add: query_def db yielded_iter)
  qed
  have 1: "\<exists>r. neo (ca_objs h' a) = Some r \<and>
      lower (designation (neo_objs h' r)) = lower (ca_designation (ca_objs h' a))"
    if "a \<in> set as" for a
  proof -
    from link that obtain r where r: "designation_index h rs (ca_key h a) = Some r" by auto
    from designation_index_Some [OF r] have "neo_key h r = ca_key h a" by simp
    then have "neo_key h' r = ca_key h' a" by (simp add: keys)
    moreover have "neo (ca_objs h' a) = Some r" using link that r by simp
    ultimately show ?thesis by (auto simp: neo_key_def ca_key_def)
  qed
  have 3: "approaches (neo_objs h' r) = approaches (neo_objs h r) @
      filter (\<lambda>a. designation_to_neo db (ca_key h' a) = Some r) as" for r
    using link by (simp add: d2n keys)
  have 4: "approaches (neo_objs h' r) = approaches (neo_objs h r)"
    if "designation_to_neo db (neo_key h' r) \<noteq> Some r" for r
  proof -
    have "designation_to_neo db (ca_key h' a) \<noteq> Some r" for a
      using that designation_index_Some [of h rs "ca_key h a" r] by (auto simp: d2n keys)
    then show ?thesis by (simp add: 3)
  qed
  have 2: "approaches (neo_objs h' r) = approaches (neo_objs h r) @
           filter (\<lambda>a. lower (ca_designation (ca_objs h' a))
                        = lower (designation (neo_objs h' r))) as"
    if dist: "distinct (map (neo_key h) rs)" and r: "r \<in> set rs" for r
  proof -
    have own: "designation_index h rs (neo_key h r) = Some r"
      by (rule designation_index_distinct [OF dist r])
    have "designation_to_neo db (ca_key h' a) = Some r \<longleftrightarrow> ca_key h' a = neo_key h' r" for a
      using own designation_index_Some [of h rs "ca_key h a" r] by (auto simp: d2n keys)
    then show ?thesis by (simp add: 3 neo_key_def ca_key_def)
  qed
  from 1 2 3 4 q show ?thesis by blast
qed

theorem linking_invariant_witness:
  "NEODatabase_init eros_heap [0] [0] = Inr (linked eros_heap 0 0, eros_db) \<and>
   distinct (map (neo_key eros_heap) [0]) \<and>
   yielded (query (linked eros_heap 0 0) eros_db []) = [0] \<and>
   neo (ca_objs (linked eros_heap 0 0) 0) = Some 0 \<and>
   approaches (neo_objs eros_heap 0) = [] \<and>
   approaches (neo_objs (linked eros_heap 0 0) 0) = [0] \<and>
   NEODatabase_init dup_heap [0, 1] [0] = Inr (linked dup_heap 0 1, dup_db) \<and>
   designation_to_neo dup_db (neo_key (linked dup_heap 0 1) 0) = Some 1 \<and>
   approaches (neo_objs (linked dup_heap 0 1) 0) = [] \<and>
   approaches (neo_objs (linked dup_heap 0 1) 1) = [0]"
  using linking_invariant [OF eros_init] linking_invariant [OF dup_init] eros_init dup_init
  by (simp add: query_def eros_db_def dup_db_def linked_def eros_heap_def dup_heap_def
      eros_def eros_approach_def neo_key_def lower_def lower_char_def)

text \<open>
  The claim as it stands, without the condition on the designations, fails: of two NEOs
  whose designations are equal up to case the earlier one receives no approach, although
  the approach below carries exactly its designation.
\<close>

theorem linking_duplicate_designation_counterexample:
  "NEODatabase_init dup_heap [0, 1] [0] = Inr (linked dup_heap 0 1, dup_db) \<and>
   ca_designation (ca_objs (linked dup_heap 0 1) 0)
     = designation (neo_objs (linked dup_heap 0 1) 0) \<and>
   approaches (neo_objs (linked dup_heap 0 1) 0) = []"
  using dup_init by (simp add: linked_def dup_heap_def)

end
